theory Spec2Isabelle
  imports Complex_Main "HOL-Library.Word"
begin

section \<open>Coordinates\<close>

text \<open>
  QBox stores four C++ \<^verbatim>\<open>int\<close> values, QBoxF four \<^verbatim>\<open>qreal\<close> (double) values.
  An \<^verbatim>\<open>int\<close> is a 32-bit two's-complement word: \<open>+\<close>, \<open>-\<close> and unary minus are the
  word operations and the comparisons \<^verbatim>\<open><\<close>, \<^verbatim>\<open>>=\<close> are the signed ones (\<open><s\<close>, \<open>\<le>s\<close>);
  \<open>sint\<close> reads the numerical value. C++ leaves signed overflow undefined and the class
  documentation of QBox (section Constraints of qbox.cpp) excludes it; in the model an
  overflowing operation wraps around, which is what the arithmetic instructions of the
  supported targets compute. A \<^verbatim>\<open>qreal\<close> is modelled by a real number; the only doubles
  that occur below are images of 32-bit integers, which doubles represent exactly.
\<close>

type_synonym cint = "32 word"

definition INT_MIN :: cint where
  "INT_MIN = - 2147483648"

text \<open>
  Modelled from the spec: qMin and qMax are declared in qminmax.h, which is not part of
  the excerpt. They are Qt's minimum and maximum, \<^verbatim>\<open>(a < b) ? a : b\<close> and
  \<^verbatim>\<open>(a < b) ? b : a\<close>, here at type \<^verbatim>\<open>int\<close>.
\<close>

definition qMin :: "cint \<Rightarrow> cint \<Rightarrow> cint" where
  "qMin a b = (if a <s b then a else b)"

definition qMax :: "cint \<Rightarrow> cint \<Rightarrow> cint" where
  "qMax a b = (if a <s b then b else a)"

section \<open>Value types used by QBox\<close>

text \<open>
  Modelled from the spec: QPoint, QSize and QMargins are declared in qpoint.h, qsize.h
  and qmargins.h, which are not part of the excerpt. QBox only uses their constructors
  and their accessors \<^verbatim>\<open>x()\<close>, \<^verbatim>\<open>y()\<close>, \<^verbatim>\<open>width()\<close>, \<^verbatim>\<open>height()\<close>, \<^verbatim>\<open>left()\<close>, \<^verbatim>\<open>top()\<close>,
  \<^verbatim>\<open>right()\<close>, \<^verbatim>\<open>bottom()\<close>, so each is a tuple of \<^verbatim>\<open>int\<close> values with these selectors.
\<close>

datatype QPoint = QPoint (QPoint_x: cint) (QPoint_y: cint)

datatype QSize = QSize (QSize_width: cint) (QSize_height: cint)

datatype QMargins =
  QMargins (QMargins_left: cint) (QMargins_top: cint) (QMargins_right: cint) (QMargins_bottom: cint)

text \<open>The private members of QBoxF (qbox.h, lines 656-660) and of QBox (lines 130-134).\<close>

record QBoxF =
  xp :: real
  yp :: real
  w :: real
  h :: real

record QBox =
  xp :: cint
  yp :: cint
  w :: cint
  h :: cint

section \<open>QBox: constructors, predicates and accessors (qbox.h)\<close>

definition QBox_default :: QBox where
  "QBox_default = \<lparr>xp = 0, yp = 0, w = 0, h = 0\<rparr>"

definition QBox_of_ints :: "cint \<Rightarrow> cint \<Rightarrow> cint \<Rightarrow> cint \<Rightarrow> QBox" where
  "QBox_of_ints aleft atop awidth aheight = \<lparr>xp = aleft, yp = atop, w = awidth, h = aheight\<rparr>"

definition QBox_of_points :: "QPoint \<Rightarrow> QPoint \<Rightarrow> QBox" where
  "QBox_of_points atopLeft abottomRight =
     \<lparr>xp = QPoint_x atopLeft, yp = QPoint_y atopLeft,
      w = QPoint_x abottomRight - QPoint_x atopLeft,
      h = QPoint_y abottomRight - QPoint_y atopLeft\<rparr>"

definition QBox_of_point_size :: "QPoint \<Rightarrow> QSize \<Rightarrow> QBox" where
  "QBox_of_point_size atopLeft asize =
     \<lparr>xp = QPoint_x atopLeft, yp = QPoint_y atopLeft,
      w = QSize_width asize, h = QSize_height asize\<rparr>"

definition QBox_isNull :: "QBox \<Rightarrow> bool" where
  "QBox_isNull r = (w r = 0 \<and> h r = 0)"

definition QBox_isEmpty :: "QBox \<Rightarrow> bool" where
  "QBox_isEmpty r = (w r \<le>s 0 \<or> h r \<le>s 0)"

definition QBox_isValid :: "QBox \<Rightarrow> bool" where
  "QBox_isValid r = (0 <s w r \<and> 0 <s h r)"

definition QBox_left :: "QBox \<Rightarrow> cint" where
  "QBox_left r = xp r"

definition QBox_top :: "QBox \<Rightarrow> cint" where
  "QBox_top r = yp r"

definition QBox_right :: "QBox \<Rightarrow> cint" where
  "QBox_right r = xp r + w r"

definition QBox_bottom :: "QBox \<Rightarrow> cint" where
  "QBox_bottom r = yp r + w r"

definition QBox_x :: "QBox \<Rightarrow> cint" where
  "QBox_x r = xp r"

definition QBox_y :: "QBox \<Rightarrow> cint" where
  "QBox_y r = yp r"

definition QBox_width :: "QBox \<Rightarrow> cint" where
  "QBox_width r = w r"

definition QBox_height :: "QBox \<Rightarrow> cint" where
  "QBox_height r = h r"

definition QBox_topLeft :: "QBox \<Rightarrow> QPoint" where
  "QBox_topLeft r = QPoint (xp r) (yp r)"

definition QBox_bottomRight :: "QBox \<Rightarrow> QPoint" where
  "QBox_bottomRight r = QPoint (xp r + w r) (yp r + h r)"

text \<open>\<^verbatim>\<open>operator==\<close> (qbox.h, lines 116-119) compares the four members.\<close>

definition QBox_operator_eq :: "QBox \<Rightarrow> QBox \<Rightarrow> bool" where
  "QBox_operator_eq r1 r2 = (xp r1 = xp r2 \<and> w r1 = w r2 \<and> yp r1 = yp r2 \<and> h r1 = h r2)"

section \<open>QBox: setters and movers (qbox.h)\<close>

text \<open>A mutating member function takes the rectangle and returns the updated rectangle.\<close>

definition QBox_setLeft :: "cint \<Rightarrow> QBox \<Rightarrow> QBox" where
  "QBox_setLeft pos r = (let diff = pos - xp r in r\<lparr>xp := xp r + diff, w := w r - diff\<rparr>)"

definition QBox_setRight :: "cint \<Rightarrow> QBox \<Rightarrow> QBox" where
  "QBox_setRight pos r = r\<lparr>w := pos - xp r\<rparr>"

definition QBox_setTop :: "cint \<Rightarrow> QBox \<Rightarrow> QBox" where
  "QBox_setTop pos r = (let diff = pos - yp r in r\<lparr>yp := yp r + diff, h := h r - diff\<rparr>)"

definition QBox_setBottom :: "cint \<Rightarrow> QBox \<Rightarrow> QBox" where
  "QBox_setBottom pos r = r\<lparr>h := pos - yp r\<rparr>"

definition QBox_moveLeft :: "cint \<Rightarrow> QBox \<Rightarrow> QBox" where
  "QBox_moveLeft pos r = r\<lparr>xp := pos\<rparr>"

definition QBox_moveTop :: "cint \<Rightarrow> QBox \<Rightarrow> QBox" where
  "QBox_moveTop pos r = r\<lparr>yp := pos\<rparr>"

definition QBox_moveRight :: "cint \<Rightarrow> QBox \<Rightarrow> QBox" where
  "QBox_moveRight pos r = r\<lparr>xp := pos - w r\<rparr>"

definition QBox_moveBottom :: "cint \<Rightarrow> QBox \<Rightarrow> QBox" where
  "QBox_moveBottom pos r = r\<lparr>yp := pos - h r\<rparr>"

definition QBox_setCoords :: "cint \<Rightarrow> cint \<Rightarrow> cint \<Rightarrow> cint \<Rightarrow> QBox \<Rightarrow> QBox" where
  "QBox_setCoords xp1 yp1 xp2 yp2 r = r\<lparr>xp := xp1, yp := yp1, w := xp2 - xp1, h := yp2 - yp1\<rparr>"

section \<open>QBox: margins (qbox.h)\<close>

definition QBox_marginsAdded :: "QBox \<Rightarrow> QMargins \<Rightarrow> QBox" where
  "QBox_marginsAdded r margins =
     QBox_of_point_size
       (QPoint (xp r - QMargins_left margins) (yp r - QMargins_top margins))
       (QSize (w r + QMargins_left margins + QMargins_right margins)
              (h r + QMargins_top margins + QMargins_bottom margins))"

definition QBox_marginsRemoved :: "QBox \<Rightarrow> QMargins \<Rightarrow> QBox" where
  "QBox_marginsRemoved r margins =
     QBox_of_point_size
       (QPoint (xp r + QMargins_left margins) (yp r + QMargins_top margins))
       (QSize (w r - QMargins_left margins - QMargins_right margins)
              (h r - QMargins_top margins - QMargins_bottom margins))"

section \<open>QBox: normalized, contains, union, intersection (qbox.cpp)\<close>

definition QBox_normalized :: "QBox \<Rightarrow> QBox" where
  "QBox_normalized this =
     (let r = this;
          r = (if w r <s 0 then r\<lparr>xp := xp r + w r, w := - w r\<rparr> else r);
          r = (if h r <s 0 then r\<lparr>yp := yp r + h r, h := - h r\<rparr> else r)
      in r)"

text \<open>
  In the next four functions the source declares two locals equal to \<^verbatim>\<open>xp\<close> (or
  \<^verbatim>\<open>yp\<close>) and adds the extent to the first when it is negative and to the second
  otherwise; the model binds the resulting pair at once. \<^verbatim>\<open>a >= b\<close> is \<open>b \<le>s a\<close>.
\<close>

definition QBox_contains :: "QBox \<Rightarrow> QPoint \<Rightarrow> bool" where
  "QBox_contains this p =
     (if QBox_isNull this then False
      else
        let (l, r) = (if w this <s 0 then (xp this + w this, xp this)
                      else (xp this, xp this + w this))
        in if QPoint_x p <s l \<or> r \<le>s QPoint_x p then False
           else
             let (t, b) = (if h this <s 0 then (yp this + h this, yp this)
                           else (yp this, yp this + h this))
             in if QPoint_y p <s t \<or> b \<le>s QPoint_y p then False
                else True)"

definition QBox_operator_or :: "QBox \<Rightarrow> QBox \<Rightarrow> QBox" where
  "QBox_operator_or this r =
     (if QBox_isNull this then r
      else if QBox_isNull r then this
      else
        let (lft, rgt) = (if w this <s 0 then (xp this + w this, xp this)
                          else (xp this, xp this + w this));
            (lft, rgt) = (if w r <s 0 then (qMin lft (xp r + w r), qMax rgt (xp r))
                          else (qMin lft (xp r), qMax rgt (xp r + w r)));
            (tp, btm) = (if h this <s 0 then (yp this + h this, yp this)
                         else (yp this, yp this + h this));
            (tp, btm) = (if h r <s 0 then (qMin tp (yp r + h r), qMax btm (yp r))
                         else (qMin tp (yp r), qMax btm (yp r + h r)))
        in QBox_of_ints lft tp (rgt - lft) (btm - tp))"

definition QBox_operator_and :: "QBox \<Rightarrow> QBox \<Rightarrow> QBox" where
  "QBox_operator_and this r =
     (if QBox_isNull this \<or> QBox_isNull r then QBox_default
      else
        let (l1, r1) = (if w this <s 0 then (xp this + w this, xp this)
                        else (xp this, xp this + w this));
            (l2, r2) = (if w r <s 0 then (xp r + w r, xp r)
                        else (xp r, xp r + w r))
        in if r2 \<le>s l1 \<or> r1 \<le>s l2 then QBox_default
           else
             let (t1, b1) = (if h this <s 0 then (yp this + h this, yp this)
                             else (yp this, yp this + h this));
                 (t2, b2) = (if h r <s 0 then (yp r + h r, yp r)
                             else (yp r, yp r + h r))
             in if b2 \<le>s t1 \<or> b1 \<le>s t2 then QBox_default
                else
                  let tmp = QBox_default;
                      tmp = tmp\<lparr>xp := qMax l1 l2\<rparr>;
                      tmp = tmp\<lparr>yp := qMax t1 t2\<rparr>;
                      tmp = tmp\<lparr>w := qMin r1 r2 - xp tmp\<rparr>;
                      tmp = tmp\<lparr>h := qMin b1 b2 - yp tmp\<rparr>
                  in tmp)"

definition QBox_intersects :: "QBox \<Rightarrow> QBox \<Rightarrow> bool" where
  "QBox_intersects this r =
     (if QBox_isNull this \<or> QBox_isNull r then False
      else
        let (l1, r1) = (if w this <s 0 then (xp this + w this, xp this)
                        else (xp this, xp this + w this));
            (l2, r2) = (if w r <s 0 then (xp r + w r, xp r)
                        else (xp r, xp r + w r))
        in if r2 \<le>s l1 \<or> r1 \<le>s l2 then False
           else
             let (t1, b1) = (if h this <s 0 then (yp this + h this, yp this)
                             else (yp this, yp this + h this));
                 (t2, b2) = (if h r <s 0 then (yp r + h r, yp r)
                             else (yp r, yp r + h r))
             in if b2 \<le>s t1 \<or> b1 \<le>s t2 then False
                else True)"

definition QBox_united :: "QBox \<Rightarrow> QBox \<Rightarrow> QBox" where
  "QBox_united this r = QBox_operator_or this r"

definition QBox_intersected :: "QBox \<Rightarrow> QBox \<Rightarrow> QBox" where
  "QBox_intersected this other = QBox_operator_and this other"

section \<open>Conversion between QBox and QBoxF (qbox.h)\<close>

text \<open>
  \<^verbatim>\<open>QBoxF(const QBox &)\<close> converts each \<^verbatim>\<open>int\<close> to \<^verbatim>\<open>qreal\<close>; \<^verbatim>\<open>QBox::toBoxF()\<close> returns
  \<^verbatim>\<open>*this\<close> through that constructor.
\<close>

definition QBoxF_of_QBox :: "QBox \<Rightarrow> QBoxF" where
  "QBoxF_of_QBox r =
     \<lparr>QBoxF.xp = real_of_int (sint (QBox_x r)), QBoxF.yp = real_of_int (sint (QBox_y r)),
      QBoxF.w = real_of_int (sint (QBox_width r)), QBoxF.h = real_of_int (sint (QBox_height r))\<rparr>"

definition QBox_toBoxF :: "QBox \<Rightarrow> QBoxF" where
  "QBox_toBoxF r = QBoxF_of_QBox r"

definition QBoxF_x :: "QBoxF \<Rightarrow> real" where
  "QBoxF_x f = QBoxF.xp f"

definition QBoxF_y :: "QBoxF \<Rightarrow> real" where
  "QBoxF_y f = QBoxF.yp f"

definition QBoxF_width :: "QBoxF \<Rightarrow> real" where
  "QBoxF_width f = QBoxF.w f"

definition QBoxF_height :: "QBoxF \<Rightarrow> real" where
  "QBoxF_height f = QBoxF.h f"

text \<open>
  \<^verbatim>\<open>qRound\<close> (double to int) is declared outside the excerpt, so \<^verbatim>\<open>QBoxF::toBox()\<close> takes
  it as a parameter. \<^verbatim>\<open>xp - nxp\<close> converts the \<^verbatim>\<open>int\<close> \<^verbatim>\<open>nxp\<close> back to \<^verbatim>\<open>qreal\<close>.
\<close>

definition QBoxF_toBox :: "(real \<Rightarrow> cint) \<Rightarrow> QBoxF \<Rightarrow> QBox" where
  "QBoxF_toBox qRound f =
     (let nxp = qRound (QBoxF.xp f);
          nyp = qRound (QBoxF.yp f);
          nw = qRound (QBoxF.w f + (QBoxF.xp f - real_of_int (sint nxp)) / 2);
          nh = qRound (QBoxF.h f + (QBoxF.yp f - real_of_int (sint nyp)) / 2)
      in QBox_of_ints nxp nyp nw nh)"

text \<open>
  Modelled from the spec: \<^verbatim>\<open>qRound(double)\<close> of Qt, not part of the excerpt, rounds to the
  nearest integer, halves away from zero: \<^verbatim>\<open>d >= 0.0 ? int(d + 0.5) : int(d - 0.5)\<close>, where
  \<^verbatim>\<open>int(...)\<close> truncates towards zero. It is one function that can be passed to
  \<open>QBoxF_toBox\<close>.
\<close>

definition qRound_nearest :: "real \<Rightarrow> cint" where
  "qRound_nearest d = word_of_int (if 0 \<le> d then \<lfloor>d + 1 / 2\<rfloor> else \<lceil>d - 1 / 2\<rceil>)"

section \<open>QBox stream operators (qbox.cpp)\<close>

text \<open>
  Modelled from the spec: QDataStream is declared in qdatastream.h, which is not part of
  the excerpt. The stream operators of QBox use its \<^verbatim>\<open>version()\<close> and its operators for
  \<^verbatim>\<open>qint16\<close> and \<^verbatim>\<open>qint32\<close>; the model is a version number and the sequence of
  fixed-width integers written so far, read from the front. Reading when the next item
  is missing or of the other width yields 0 and leaves the stream as it is.
\<close>

datatype QDataStream_item = Int16 "16 word" | Int32 "32 word"

record QDataStream =
  version :: int
  contents :: "QDataStream_item list"

definition write_qint16 :: "QDataStream \<Rightarrow> 16 word \<Rightarrow> QDataStream" where
  "write_qint16 s v = s\<lparr>contents := contents s @ [Int16 v]\<rparr>"

definition write_qint32 :: "QDataStream \<Rightarrow> 32 word \<Rightarrow> QDataStream" where
  "write_qint32 s v = s\<lparr>contents := contents s @ [Int32 v]\<rparr>"

definition read_qint16 :: "QDataStream \<Rightarrow> 16 word \<times> QDataStream" where
  "read_qint16 s =
     (case contents s of Int16 v # rest \<Rightarrow> (v, s\<lparr>contents := rest\<rparr>) | _ \<Rightarrow> (0, s))"

definition read_qint32 :: "QDataStream \<Rightarrow> 32 word \<times> QDataStream" where
  "read_qint32 s =
     (case contents s of Int32 v # rest \<Rightarrow> (v, s\<lparr>contents := rest\<rparr>) | _ \<Rightarrow> (0, s))"

text \<open>
  \<^verbatim>\<open>operator<<(QDataStream &, const QBox &)\<close>: the cast \<^verbatim>\<open>(qint16)\<close> keeps the low 16 bits
  (\<open>ucast\<close>), \<^verbatim>\<open>(qint32)\<close> is the identity on \<^verbatim>\<open>int\<close>.
\<close>

definition QBox_operator_write :: "QDataStream \<Rightarrow> QBox \<Rightarrow> QDataStream" where
  "QBox_operator_write s r =
     (if version s = 1 then
        write_qint16
          (write_qint16
            (write_qint16 (write_qint16 s (ucast (QBox_left r))) (ucast (QBox_top r)))
            (ucast (QBox_right r)))
          (ucast (QBox_bottom r))
      else
        write_qint32
          (write_qint32
            (write_qint32 (write_qint32 s (QBox_left r)) (QBox_top r))
            (QBox_right r))
          (QBox_bottom r))"

text \<open>
  \<^verbatim>\<open>operator>>(QDataStream &, QBox &)\<close>: passing a \<^verbatim>\<open>qint16\<close> to \<^verbatim>\<open>setCoords(int, ...)\<close>
  sign-extends it (\<open>scast\<close>). The result is the stream and the rectangle read.
\<close>

definition QBox_operator_read :: "QDataStream \<Rightarrow> QBox \<Rightarrow> QDataStream \<times> QBox" where
  "QBox_operator_read s r =
     (if version s = 1 then
        let (x1, s) = read_qint16 s;
            (y1, s) = read_qint16 s;
            (x2, s) = read_qint16 s;
            (y2, s) = read_qint16 s
        in (s, QBox_setCoords (scast x1) (scast y1) (scast x2) (scast y2) r)
      else
        let (x1, s) = read_qint32 s;
            (y1, s) = read_qint32 s;
            (x2, s) = read_qint32 s;
            (y2, s) = read_qint32 s
        in (s, QBox_setCoords x1 y1 x2 y2 r))"

section \<open>Edges of a rectangle\<close>

text \<open>
  Two notions used to state the lemmas about \<open>QBox_contains\<close>, \<open>QBox_operator_and\<close> and
  \<open>QBox_operator_or\<close>: the pair of locals that these functions compute from a position and
  an extent (\<^verbatim>\<open>l\<close> and \<^verbatim>\<open>r\<close>, or \<^verbatim>\<open>t\<close> and \<^verbatim>\<open>b\<close>), and the test they apply to a coordinate
  (\<^verbatim>\<open>!(v < l || v >= r)\<close>).
\<close>

definition edges :: "cint \<Rightarrow> cint \<Rightarrow> cint \<times> cint" where
  "edges x e = (if e <s 0 then (x + e, x) else (x, x + e))"

definition inside :: "cint \<Rightarrow> cint \<times> cint \<Rightarrow> bool" where
  "inside v s = (fst s \<le>s v \<and> v <s snd s)"

text \<open>
  The distance, as a number, from the smaller of two low edges to the larger of two high
  edges: the extent that \<^verbatim>\<open>operator|\<close> has to store in \<^verbatim>\<open>right - left\<close> (or
  \<^verbatim>\<open>bottom - top\<close>) for two rectangles given by position and extent.
\<close>

definition bounding_extent :: "cint \<Rightarrow> cint \<Rightarrow> cint \<Rightarrow> cint \<Rightarrow> int" where
  "bounding_extent x1 e1 x2 e2 =
     sint (qMax (snd (edges x1 e1)) (snd (edges x2 e2)))
     - sint (qMin (fst (edges x1 e1)) (fst (edges x2 e2)))"

section \<open>Theorems\<close>

lemma QBox_operator_eq_iff: "QBox_operator_eq r1 r2 \<longleftrightarrow> r1 = r2"
  by (cases r1, cases r2) (auto simp: QBox_operator_eq_def)

lemma QBox_right_eq: "QBox_right r = QBox_x r + QBox_width r"
  by (simp add: QBox_right_def QBox_x_def QBox_width_def)

lemma QBox_bottom_eq: "QBox_bottom r = QBox_y r + QBox_width r"
  by (simp add: QBox_bottom_def QBox_y_def QBox_width_def)

text \<open>
  C1 (fails on the code). The documentation of \<^verbatim>\<open>QBox::bottom()\<close> says it is equivalent to
  \<^verbatim>\<open>y() + height()\<close>, but the function returns \<^verbatim>\<open>yp + w\<close>. For the rectangle
  \<^verbatim>\<open>QBox(0, 0, 1, 2)\<close> it returns 1, while \<^verbatim>\<open>y() + height()\<close> is 2 and \<^verbatim>\<open>bottomRight()\<close>
  is the point (1, 2), not \<^verbatim>\<open>(right(), bottom())\<close> = (1, 1).
\<close>

theorem C1_bottom_uses_width:
  "QBox_bottom (QBox_of_ints 0 0 1 2) = 1
   \<and> QBox_y (QBox_of_ints 0 0 1 2) + QBox_height (QBox_of_ints 0 0 1 2) = 2
   \<and> QBox_bottomRight (QBox_of_ints 0 0 1 2) = QPoint 1 2
   \<and> QBox_bottomRight (QBox_of_ints 0 0 1 2)
       \<noteq> QPoint (QBox_right (QBox_of_ints 0 0 1 2)) (QBox_bottom (QBox_of_ints 0 0 1 2))"
  by (simp add: QBox_bottom_def QBox_y_def QBox_height_def QBox_bottomRight_def
      QBox_right_def QBox_of_ints_def)

subsection \<open>Stream operators\<close>

lemma QDataStream_roundtrip_code:
  "version s \<noteq> 1 \<Longrightarrow> contents s = [] \<Longrightarrow>
   snd (QBox_operator_read (QBox_operator_write s r) r0) = r\<lparr>h := w r\<rparr>"
  by (cases r, cases r0)
     (simp add: QBox_operator_read_def QBox_operator_write_def write_qint32_def read_qint32_def
      QBox_setCoords_def QBox_left_def QBox_top_def QBox_right_def QBox_bottom_def)

text \<open>
  C2 (fails on the code). With a stream version other than 1 the writer stores
  \<^verbatim>\<open>left()\<close>, \<^verbatim>\<open>top()\<close>, \<^verbatim>\<open>right()\<close>, \<^verbatim>\<open>bottom()\<close> and the reader rebuilds the rectangle with
  \<^verbatim>\<open>setCoords\<close>. Since \<^verbatim>\<open>bottom()\<close> is \<^verbatim>\<open>yp + w\<close>, the height read back is the width:
  \<^verbatim>\<open>QBox(0, 0, 1, 2)\<close> written to an empty version-2 stream is read back as
  \<^verbatim>\<open>QBox(0, 0, 1, 1)\<close>, which \<^verbatim>\<open>operator==\<close> distinguishes from the original.
\<close>

theorem C2_roundtrip_loses_height:
  "snd (QBox_operator_read
          (QBox_operator_write \<lparr>version = 2, contents = []\<rparr> (QBox_of_ints 0 0 1 2))
          QBox_default)
     = QBox_of_ints 0 0 1 1
   \<and> \<not> QBox_operator_eq (QBox_of_ints 0 0 1 1) (QBox_of_ints 0 0 1 2)"
  by (simp add: QBox_operator_read_def QBox_operator_write_def write_qint32_def read_qint32_def
      QBox_setCoords_def QBox_left_def QBox_top_def QBox_right_def QBox_bottom_def
      QBox_of_ints_def QBox_default_def QBox_operator_eq_def)

subsection \<open>Setters and movers\<close>

lemma QBox_setLeft_frame:
  "QBox_left (QBox_setLeft pos r) = pos \<and> QBox_right (QBox_setLeft pos r) = QBox_right r"
  by (simp add: QBox_setLeft_def QBox_left_def QBox_right_def Let_def)

lemma QBox_setTop_top: "QBox_top (QBox_setTop pos r) = pos"
  by (simp add: QBox_setTop_def QBox_top_def Let_def)

lemma QBox_setTop_bottom: "QBox_bottom (QBox_setTop pos r) = pos + QBox_width r"
  by (simp add: QBox_setTop_def QBox_bottom_def QBox_width_def Let_def)

lemma QBox_move_size:
  "QBox_width (QBox_moveLeft pos r) = QBox_width r
   \<and> QBox_height (QBox_moveLeft pos r) = QBox_height r
   \<and> QBox_width (QBox_moveTop pos r) = QBox_width r
   \<and> QBox_height (QBox_moveTop pos r) = QBox_height r"
  by (simp add: QBox_moveLeft_def QBox_moveTop_def QBox_width_def QBox_height_def)

text \<open>
  C3 (fails on the code). \<^verbatim>\<open>setLeft\<close> keeps \<^verbatim>\<open>right()\<close> and the movers keep the size, but
  \<^verbatim>\<open>setTop(pos)\<close> changes what \<^verbatim>\<open>bottom()\<close> returns, because \<^verbatim>\<open>bottom()\<close> is \<^verbatim>\<open>yp + w\<close>:
  for \<^verbatim>\<open>QBox(0, 0, 1, 2)\<close>, \<^verbatim>\<open>bottom()\<close> is 1 before \<^verbatim>\<open>setTop(1)\<close> and 2 after it.
\<close>

theorem C3_setTop_moves_bottom:
  "QBox_bottom (QBox_of_ints 0 0 1 2) = 1
   \<and> QBox_setTop 1 (QBox_of_ints 0 0 1 2) = QBox_of_ints 0 1 1 1
   \<and> QBox_bottom (QBox_setTop 1 (QBox_of_ints 0 0 1 2)) = 2"
  by (simp add: QBox_setTop_def QBox_bottom_def QBox_of_ints_def Let_def)

subsection \<open>Margins\<close>

text \<open>
  C10. Removing the margins that were added gives back the rectangle: the four members are
  restored, so \<^verbatim>\<open>r.marginsAdded(m).marginsRemoved(m) == r\<close> for every \<open>r\<close> and \<open>m\<close>.
\<close>

theorem C10_margins_roundtrip:
  "QBox_marginsRemoved (QBox_marginsAdded r m) m = r
   \<and> QBox_operator_eq (QBox_marginsRemoved (QBox_marginsAdded r m) m) r"
  by (simp add: QBox_operator_eq_def QBox_marginsRemoved_def QBox_marginsAdded_def
      QBox_of_point_size_def)

subsection \<open>Signed 32-bit arithmetic\<close>

lemma mod_wrap3:
  fixes x M :: int
  assumes "0 < M" "- M \<le> x" "x < 2 * M"
  shows "x mod M = (if x < 0 then x + M else if x < M then x else x - M)"
proof -
  have a: "x < 0 \<Longrightarrow> x mod M = x + M"
  proof -
    assume "x < 0"
    then have "(x + M) mod M = x + M" using assms by (intro mod_pos_pos_trivial) auto
    then show ?thesis by simp
  qed
  have b: "0 \<le> x \<Longrightarrow> x < M \<Longrightarrow> x mod M = x" by simp
  have c: "M \<le> x \<Longrightarrow> x mod M = x - M"
  proof -
    assume "M \<le> x"
    then have "(x - M) mod M = x - M" using assms by (intro mod_pos_pos_trivial) auto
    then show ?thesis by simp
  qed
  show ?thesis using a b c by auto
qed

lemma sint32_ge: "- 2147483648 \<le> sint (v::cint)"
  using sint_ge [of v] by simp

lemma sint32_lt: "sint (v::cint) < 2147483648"
  using sint_lt [of v] by simp

lemma sint32_word_of_int:
  "sint (word_of_int k :: cint) = (k + 2147483648) mod 4294967296 - 2147483648"
  using int_word_sint [where 'a = 32, of k] by simp

lemma sint32_wrap:
  assumes "- 4294967296 \<le> k" "k < 4294967296"
  shows "sint (word_of_int k :: cint) =
    (if k < - 2147483648 then k + 4294967296 else if k < 2147483648 then k else k - 4294967296)"
  using mod_wrap3 [of 4294967296 "k + 2147483648"] assms
  by (simp add: sint32_word_of_int)

lemma sint32_add:
  "sint (a + b :: cint) =
    (if sint a + sint b < - 2147483648 then sint a + sint b + 4294967296
     else if sint a + sint b < 2147483648 then sint a + sint b
     else sint a + sint b - 4294967296)"
proof -
  have "a + b = word_of_int (sint a + sint b)" by simp
  moreover have "- 4294967296 \<le> sint a + sint b" "sint a + sint b < 4294967296"
    using sint32_ge [of a] sint32_lt [of a] sint32_ge [of b] sint32_lt [of b] by linarith+
  ultimately show ?thesis by (simp only: sint32_wrap)
qed

lemma sint32_diff:
  "sint (a - b :: cint) =
    (if sint a - sint b < - 2147483648 then sint a - sint b + 4294967296
     else if sint a - sint b < 2147483648 then sint a - sint b
     else sint a - sint b - 4294967296)"
proof -
  have "a - b = word_of_int (sint a - sint b)" by simp
  moreover have "- 4294967296 \<le> sint a - sint b" "sint a - sint b < 4294967296"
    using sint32_ge [of a] sint32_lt [of a] sint32_ge [of b] sint32_lt [of b] by linarith+
  ultimately show ?thesis by (simp only: sint32_wrap)
qed

lemma sint32_minus:
  "sint (- a :: cint) = (if sint a = - 2147483648 then - 2147483648 else - sint a)"
proof -
  have "- a = word_of_int (- sint a)" by simp
  moreover have "- 4294967296 \<le> - sint a" "- sint a < 4294967296"
    using sint32_ge [of a] sint32_lt [of a] by linarith+
  ultimately have "sint (- a) = (if - sint a < - 2147483648 then - sint a + 4294967296
     else if - sint a < 2147483648 then - sint a else - sint a - 4294967296)"
    by (simp only: sint32_wrap)
  then show ?thesis using sint32_ge [of a] sint32_lt [of a] by (auto split: if_splits)
qed

lemma sint_INT_MIN: "sint INT_MIN = - 2147483648"
  by (simp add: INT_MIN_def)

lemma INT_MIN_iff: "(v = INT_MIN) \<longleftrightarrow> sint v = - 2147483648"
  using sint_INT_MIN by (metis signed_word_eqI)

subsection \<open>Edges and containment\<close>

lemma inside_iff: "inside v (l, r) \<longleftrightarrow> sint l \<le> sint v \<and> sint v < sint r"
  by (simp add: inside_def word_sless_alt word_sle_eq)

lemma edges_zero: "edges x 0 = (x, x)"
  by (simp add: edges_def)

lemma inside_empty: "\<not> inside v (x, x)"
  by (simp add: inside_iff)

lemma QBox_contains_iff:
  "QBox_contains r p \<longleftrightarrow>
     inside (QPoint_x p) (edges (xp r) (w r)) \<and> inside (QPoint_y p) (edges (yp r) (h r))"
  by (auto simp: QBox_contains_def QBox_isNull_def edges_def inside_iff word_sless_alt word_sle_eq)

lemma edges_extent:
  assumes "edges x e = (l, r)"
  shows "sint r - sint l \<le> 2147483648"
    and "sint r - sint l = 2147483648 \<Longrightarrow> e = INT_MIN"
    and "sint r - sint l < 0 \<Longrightarrow> sint r - sint l \<le> - 2147483648"
  using assms sint32_ge [of x] sint32_lt [of x] sint32_ge [of e] sint32_lt [of e]
  by (auto simp: edges_def word_sless_alt sint32_add INT_MIN_iff split: if_splits)

lemma sint_qMax: "sint (qMax a b) = max (sint a) (sint b)"
  by (simp add: qMax_def word_sless_alt max_def)

lemma sint_qMin: "sint (qMin a b) = min (sint a) (sint b)"
  by (simp add: qMin_def word_sless_alt min_def)

lemma edges_nonneg: "\<not> e <s 0 \<Longrightarrow> edges x e = (x, x + e)"
  by (simp add: edges_def)

lemma edges_intersection:
  assumes s1: "edges x1 e1 = (l1, r1)" and s2: "edges x2 e2 = (l2, r2)"
    and o1: "l1 <s r2" and o2: "l2 <s r1"
    and nm: "\<not> (e1 = INT_MIN \<and> e2 = INT_MIN)"
  shows "inside v (edges (qMax l1 l2) (qMin r1 r2 - qMax l1 l2))
         \<longleftrightarrow> inside v (l1, r1) \<and> inside v (l2, r2)"
proof -
  let ?L = "qMax l1 l2" and ?R = "qMin r1 r2"
  note e1 = edges_extent [OF s1] and e2 = edges_extent [OF s2]
  have o: "sint l1 < sint r2" "sint l2 < sint r1"
    using o1 o2 by (simp_all add: word_sless_alt)
  have lo: "0 \<le> sint ?R - sint ?L"
    using e1(1,3) e2(1,3) o unfolding sint_qMax sint_qMin by linarith
  have hi: "sint ?R - sint ?L < 2147483648"
  proof (rule ccontr)
    assume "\<not> sint ?R - sint ?L < 2147483648"
    then have "2147483648 \<le> sint r1 - sint l1" "2147483648 \<le> sint r2 - sint l2"
      unfolding sint_qMax sint_qMin by linarith+
    then have "e1 = INT_MIN" "e2 = INT_MIN"
      using e1(1,2) e2(1,2) by simp_all
    then show False using nm by simp
  qed
  have "sint (?R - ?L) = sint ?R - sint ?L"
    using lo hi by (simp add: sint32_diff)
  then have "\<not> (?R - ?L) <s 0"
    using lo by (simp add: word_sless_alt)
  then have "edges ?L (?R - ?L) = (?L, ?R)"
    by (simp add: edges_nonneg)
  then show ?thesis
    by (auto simp: inside_iff sint_qMax sint_qMin)
qed

subsection \<open>Intersection\<close>

lemma QBox_operator_and_edges:
  assumes "edges (xp a) (w a) = (l1, r1)" "edges (xp b) (w b) = (l2, r2)"
    and "edges (yp a) (h a) = (t1, b1)" "edges (yp b) (h b) = (t2, b2)"
  shows "QBox_operator_and a b =
    (if QBox_isNull a \<or> QBox_isNull b then QBox_default
     else if r2 \<le>s l1 \<or> r1 \<le>s l2 then QBox_default
     else if b2 \<le>s t1 \<or> b1 \<le>s t2 then QBox_default
     else \<lparr>xp = qMax l1 l2, yp = qMax t1 t2,
           w = qMin r1 r2 - qMax l1 l2, h = qMin b1 b2 - qMax t1 t2\<rparr>)"
  using assms
  by (auto simp: QBox_operator_and_def edges_def QBox_default_def Let_def split: if_splits)

lemma QBox_default_contains: "\<not> QBox_contains QBox_default p"
  by (simp add: QBox_contains_def QBox_default_def QBox_isNull_def)

lemma QBox_isNull_contains: "QBox_isNull r \<Longrightarrow> \<not> QBox_contains r p"
  by (simp add: QBox_contains_def)

lemma inside_disjoint:
  "r2 \<le>s l1 \<or> r1 \<le>s l2 \<Longrightarrow> \<not> (inside v (l1, r1) \<and> inside v (l2, r2))"
  by (auto simp: inside_iff word_sle_eq)

text \<open>
  C4 (amended). For all rectangles \<open>a\<close>, \<open>b\<close> and every point \<open>p\<close>, unless \<open>a\<close> and \<open>b\<close>
  both have width \<^verbatim>\<open>INT_MIN\<close> or both have height \<^verbatim>\<open>INT_MIN\<close>, \<^verbatim>\<open>(a & b).contains(p)\<close> holds
  if and only if \<^verbatim>\<open>a.contains(p)\<close> and \<^verbatim>\<open>b.contains(p)\<close> both hold. No other overflow
  affects the equivalence.
\<close>

theorem C4_intersection_contains:
  assumes "\<not> (QBox_width a = INT_MIN \<and> QBox_width b = INT_MIN)"
    and "\<not> (QBox_height a = INT_MIN \<and> QBox_height b = INT_MIN)"
  shows "QBox_contains (QBox_operator_and a b) p \<longleftrightarrow> QBox_contains a p \<and> QBox_contains b p"
proof -
  obtain l1 r1 where x1: "edges (xp a) (w a) = (l1, r1)" by fastforce
  obtain l2 r2 where x2: "edges (xp b) (w b) = (l2, r2)" by fastforce
  obtain t1 b1 where y1: "edges (yp a) (h a) = (t1, b1)" by fastforce
  obtain t2 b2 where y2: "edges (yp b) (h b) = (t2, b2)" by fastforce
  note unfold = QBox_operator_and_edges [OF x1 x2 y1 y2]
  have rhs: "QBox_contains a p \<and> QBox_contains b p \<longleftrightarrow>
      (inside (QPoint_x p) (l1, r1) \<and> inside (QPoint_x p) (l2, r2))
      \<and> (inside (QPoint_y p) (t1, b1) \<and> inside (QPoint_y p) (t2, b2))"
    by (auto simp: QBox_contains_iff x1 x2 y1 y2)
  consider (null) "QBox_isNull a \<or> QBox_isNull b"
    | (xdisj) "\<not> (QBox_isNull a \<or> QBox_isNull b)" "r2 \<le>s l1 \<or> r1 \<le>s l2"
    | (ydisj) "\<not> (QBox_isNull a \<or> QBox_isNull b)" "\<not> (r2 \<le>s l1 \<or> r1 \<le>s l2)"
        "b2 \<le>s t1 \<or> b1 \<le>s t2"
    | (overlap) "\<not> (QBox_isNull a \<or> QBox_isNull b)" "\<not> (r2 \<le>s l1 \<or> r1 \<le>s l2)"
        "\<not> (b2 \<le>s t1 \<or> b1 \<le>s t2)"
    by blast
  then show ?thesis
  proof cases
    case null
    then show ?thesis
      using QBox_isNull_contains [of a p] QBox_isNull_contains [of b p]
      by (auto simp: unfold QBox_default_contains)
  next
    case xdisj
    then show ?thesis
      using inside_disjoint [of r2 l1 r1 l2 "QPoint_x p"]
      by (auto simp: unfold QBox_default_contains rhs)
  next
    case ydisj
    then show ?thesis
      using inside_disjoint [of b2 t1 b1 t2 "QPoint_y p"]
      by (auto simp: unfold QBox_default_contains rhs)
  next
    case overlap
    have ox: "l1 <s r2" "l2 <s r1" and oy: "t1 <s b2" "t2 <s b1"
      using overlap(2,3) by (auto simp: word_sless_alt word_sle_eq)
    have nx: "\<not> (w a = INT_MIN \<and> w b = INT_MIN)" and ny: "\<not> (h a = INT_MIN \<and> h b = INT_MIN)"
      using assms by (simp_all add: QBox_width_def QBox_height_def)
    have "QBox_contains (QBox_operator_and a b) p \<longleftrightarrow>
        inside (QPoint_x p) (edges (qMax l1 l2) (qMin r1 r2 - qMax l1 l2))
        \<and> inside (QPoint_y p) (edges (qMax t1 t2) (qMin b1 b2 - qMax t1 t2))"
      using overlap by (simp add: unfold QBox_contains_iff)
    then show ?thesis
      unfolding rhs edges_intersection [OF x1 x2 ox nx] edges_intersection [OF y1 y2 oy ny] .
  qed
qed

text \<open>
  C4, witness: \<^verbatim>\<open>QBox(0, 0, 4, 4)\<close>, \<^verbatim>\<open>QBox(2, 1, 4, -4)\<close> and the point (3, 0), which lies in
  both rectangles and in their intersection.
\<close>

theorem C4_intersection_contains_witness:
  "\<not> (QBox_width (QBox_of_ints 0 0 4 4) = INT_MIN \<and> QBox_width (QBox_of_ints 2 1 4 (- 4)) = INT_MIN)
   \<and> \<not> (QBox_height (QBox_of_ints 0 0 4 4) = INT_MIN \<and> QBox_height (QBox_of_ints 2 1 4 (- 4)) = INT_MIN)
   \<and> QBox_contains (QBox_of_ints 0 0 4 4) (QPoint 3 0)
   \<and> QBox_contains (QBox_of_ints 2 1 4 (- 4)) (QPoint 3 0)
   \<and> QBox_contains (QBox_operator_and (QBox_of_ints 0 0 4 4) (QBox_of_ints 2 1 4 (- 4))) (QPoint 3 0)"
  using C4_intersection_contains [of "QBox_of_ints 0 0 4 4" "QBox_of_ints 2 1 4 (- 4)" "QPoint 3 0"]
  by (simp add: QBox_width_def QBox_height_def QBox_of_ints_def INT_MIN_def QBox_contains_def
      QBox_isNull_def word_sless_alt word_sle_eq)

text \<open>
  C4, as stated, fails when the extent of the intersection does not fit in an \<^verbatim>\<open>int\<close>: the
  rectangle \<^verbatim>\<open>QBox(0, 0, INT_MIN, 1)\<close> contains the point (-1, 0), but its intersection with
  itself has width \<^verbatim>\<open>0 - INT_MIN\<close>, which wraps to \<^verbatim>\<open>INT_MIN\<close>, and contains no point.
\<close>

theorem C4_counterexample:
  "QBox_contains (QBox_of_ints 0 0 INT_MIN 1) (QPoint (- 1) 0)
   \<and> \<not> QBox_contains (QBox_operator_and (QBox_of_ints 0 0 INT_MIN 1) (QBox_of_ints 0 0 INT_MIN 1))
        (QPoint (- 1) 0)"
  by (simp add: QBox_of_ints_def INT_MIN_def QBox_contains_def QBox_operator_and_def
      QBox_default_def QBox_isNull_def qMin_def qMax_def word_sless_alt word_sle_eq)

lemma QBox_intersects_edges:
  assumes "edges (xp a) (w a) = (l1, r1)" "edges (xp b) (w b) = (l2, r2)"
    and "edges (yp a) (h a) = (t1, b1)" "edges (yp b) (h b) = (t2, b2)"
  shows "QBox_intersects a b \<longleftrightarrow>
    \<not> (QBox_isNull a \<or> QBox_isNull b) \<and> \<not> (r2 \<le>s l1 \<or> r1 \<le>s l2)
    \<and> \<not> (b2 \<le>s t1 \<or> b1 \<le>s t2)"
  using assms
  by (auto simp: QBox_intersects_def edges_def Let_def split: if_splits)

lemma QBox_isValid_intersected:
  assumes "QBox_isValid (QBox_intersected a b)"
  shows "QBox_intersects a b"
proof -
  obtain l1 r1 where x1: "edges (xp a) (w a) = (l1, r1)" by fastforce
  obtain l2 r2 where x2: "edges (xp b) (w b) = (l2, r2)" by fastforce
  obtain t1 b1 where y1: "edges (yp a) (h a) = (t1, b1)" by fastforce
  obtain t2 b2 where y2: "edges (yp b) (h b) = (t2, b2)" by fastforce
  have "\<not> QBox_isValid QBox_default"
    by (simp add: QBox_isValid_def QBox_default_def)
  then show ?thesis
    using assms
    unfolding QBox_intersected_def QBox_operator_and_edges [OF x1 x2 y1 y2]
      QBox_intersects_edges [OF x1 x2 y1 y2]
    by (auto split: if_splits)
qed

text \<open>
  C5 (fails on the code). \<^verbatim>\<open>QBox::intersects\<close> only rejects null rectangles, so a rectangle
  with exactly one zero extent that lies inside the other one is reported as intersecting,
  although it holds no point and the intersection is not valid (the converse holds, lemma
  \<open>QBox_isValid_intersected\<close>): \<^verbatim>\<open>QBox(1, 0, 0, 2)\<close> and
  \<^verbatim>\<open>QBox(0, 0, 2, 2)\<close> intersect according to \<^verbatim>\<open>intersects\<close>, and their intersection is
  \<^verbatim>\<open>QBox(1, 0, 0, 2)\<close>, of width 0.
\<close>

theorem C5_intersects_empty_box:
  "QBox_intersects (QBox_of_ints 1 0 0 2) (QBox_of_ints 0 0 2 2)
   \<and> QBox_intersected (QBox_of_ints 1 0 0 2) (QBox_of_ints 0 0 2 2) = QBox_of_ints 1 0 0 2
   \<and> \<not> QBox_isValid (QBox_intersected (QBox_of_ints 1 0 0 2) (QBox_of_ints 0 0 2 2))"
  by (simp add: QBox_intersects_def QBox_intersected_def QBox_operator_and_def QBox_isValid_def
      QBox_isNull_def QBox_of_ints_def QBox_default_def qMin_def qMax_def word_sless_alt
      word_sle_eq)

subsection \<open>Normalization\<close>

lemma sint32_minus_pos:
  "e <s 0 \<Longrightarrow> e \<noteq> INT_MIN \<Longrightarrow> 0 <s - (e::cint)"
  using sint32_ge [of e] by (simp add: word_sless_alt sint32_minus INT_MIN_iff)

lemma edges_normalized:
  assumes "e \<noteq> INT_MIN"
  shows "edges (if e <s 0 then x + e else x) (if e <s 0 then - e else e) = edges x e"
proof (cases "e <s 0")
  case True
  then have "\<not> (- e) <s 0"
    using sint32_minus_pos [OF True assms] by (simp add: word_sless_alt)
  then show ?thesis using True by (simp add: edges_def)
next
  case False
  then show ?thesis by simp
qed

lemma QBox_normalized_members:
  "xp (QBox_normalized r) = (if w r <s 0 then xp r + w r else xp r)"
  "w (QBox_normalized r) = (if w r <s 0 then - w r else w r)"
  "yp (QBox_normalized r) = (if h r <s 0 then yp r + h r else yp r)"
  "h (QBox_normalized r) = (if h r <s 0 then - h r else h r)"
  by (simp_all add: QBox_normalized_def Let_def)

text \<open>
  C9 (amended). For every rectangle \<open>r\<close> whose width and height are not \<^verbatim>\<open>INT_MIN\<close> and
  every point \<open>p\<close>, \<^verbatim>\<open>r.contains(p) == r.normalized().contains(p)\<close>; and every rectangle
  whose width or height is zero contains no point.
\<close>

theorem C9_contains_normalized:
  "(QBox_width r \<noteq> INT_MIN \<and> QBox_height r \<noteq> INT_MIN
      \<longrightarrow> QBox_contains r p = QBox_contains (QBox_normalized r) p)
   \<and> (QBox_width r = 0 \<or> QBox_height r = 0 \<longrightarrow> \<not> QBox_contains r p)"
proof (intro conjI impI)
  assume "QBox_width r \<noteq> INT_MIN \<and> QBox_height r \<noteq> INT_MIN"
  then have nm: "w r \<noteq> INT_MIN" "h r \<noteq> INT_MIN"
    by (simp_all add: QBox_width_def QBox_height_def)
  have "edges (xp (QBox_normalized r)) (w (QBox_normalized r)) = edges (xp r) (w r)"
    unfolding QBox_normalized_members by (rule edges_normalized) (rule nm)
  moreover have "edges (yp (QBox_normalized r)) (h (QBox_normalized r)) = edges (yp r) (h r)"
    unfolding QBox_normalized_members by (rule edges_normalized) (rule nm)
  ultimately show "QBox_contains r p = QBox_contains (QBox_normalized r) p"
    by (simp add: QBox_contains_iff)
next
  assume "QBox_width r = 0 \<or> QBox_height r = 0"
  then show "\<not> QBox_contains r p"
    by (auto simp: QBox_width_def QBox_height_def QBox_contains_iff edges_zero inside_empty)
qed

text \<open>
  C9, witness: \<^verbatim>\<open>QBox(5, 5, -3, -2)\<close>, whose normalized form \<^verbatim>\<open>QBox(2, 3, 3, 2)\<close> contains the
  point (2, 4) as the rectangle itself does, and \<^verbatim>\<open>QBox(5, 5, 0, 2)\<close>, which does not contain
  its own top-left corner.
\<close>

theorem C9_contains_normalized_witness:
  "QBox_width (QBox_of_ints 5 5 (- 3) (- 2)) \<noteq> INT_MIN
   \<and> QBox_height (QBox_of_ints 5 5 (- 3) (- 2)) \<noteq> INT_MIN
   \<and> QBox_normalized (QBox_of_ints 5 5 (- 3) (- 2)) = QBox_of_ints 2 3 3 2
   \<and> QBox_contains (QBox_of_ints 5 5 (- 3) (- 2)) (QPoint 2 4)
   \<and> QBox_contains (QBox_normalized (QBox_of_ints 5 5 (- 3) (- 2))) (QPoint 2 4)
   \<and> QBox_width (QBox_of_ints 5 5 0 2) = 0
   \<and> \<not> QBox_contains (QBox_of_ints 5 5 0 2) (QPoint 5 5)"
  using C9_contains_normalized [of "QBox_of_ints 5 5 (- 3) (- 2)" "QPoint 2 4"]
    C9_contains_normalized [of "QBox_of_ints 5 5 0 2" "QPoint 5 5"]
  by (simp add: QBox_width_def QBox_height_def QBox_of_ints_def INT_MIN_def QBox_normalized_def
      QBox_contains_def QBox_isNull_def word_sless_alt word_sle_eq)

text \<open>
  C9, as stated, fails for a width of \<^verbatim>\<open>INT_MIN\<close>, which \<^verbatim>\<open>normalized()\<close> cannot negate:
  \<^verbatim>\<open>QBox(0, 0, INT_MIN, 1)\<close> contains the point (-1, 0), its normalized form
  \<^verbatim>\<open>QBox(INT_MIN, 0, INT_MIN, 1)\<close> does not.
\<close>

theorem C9_counterexample:
  "QBox_contains (QBox_of_ints 0 0 INT_MIN 1) (QPoint (- 1) 0)
   \<and> QBox_normalized (QBox_of_ints 0 0 INT_MIN 1) = QBox_of_ints INT_MIN 0 INT_MIN 1
   \<and> \<not> QBox_contains (QBox_normalized (QBox_of_ints 0 0 INT_MIN 1)) (QPoint (- 1) 0)"
  by (simp add: QBox_of_ints_def INT_MIN_def QBox_normalized_def QBox_contains_def
      QBox_isNull_def word_sless_alt word_sle_eq)

text \<open>
  C7 (amended). For every rectangle \<open>r\<close> whose width and height are not \<^verbatim>\<open>INT_MIN\<close>,
  \<^verbatim>\<open>r.normalized()\<close> has non-negative width and height, they are \<^verbatim>\<open>|r.width()|\<close> and
  \<^verbatim>\<open>|r.height()|\<close>, and normalizing twice is normalizing once. For every rectangle \<open>r\<close>:
  if \<^verbatim>\<open>r.width() >= 0\<close> and \<^verbatim>\<open>r.height() >= 0\<close> then \<^verbatim>\<open>r.normalized() == r\<close>; if
  \<^verbatim>\<open>r.width() < 0\<close> then \<^verbatim>\<open>normalized().left() == r.x() + r.width()\<close> and
  \<^verbatim>\<open>normalized().right() == r.left()\<close>; if \<^verbatim>\<open>r.height() < 0\<close> then
  \<^verbatim>\<open>normalized().top() == r.y() + r.height()\<close>.
\<close>

theorem C7_normalized:
  "(QBox_width r \<noteq> INT_MIN \<and> QBox_height r \<noteq> INT_MIN \<longrightarrow>
      0 \<le>s QBox_width (QBox_normalized r) \<and> 0 \<le>s QBox_height (QBox_normalized r)
      \<and> sint (QBox_width (QBox_normalized r)) = \<bar>sint (QBox_width r)\<bar>
      \<and> sint (QBox_height (QBox_normalized r)) = \<bar>sint (QBox_height r)\<bar>
      \<and> QBox_operator_eq (QBox_normalized (QBox_normalized r)) (QBox_normalized r))
   \<and> (0 \<le>s QBox_width r \<and> 0 \<le>s QBox_height r \<longrightarrow> QBox_operator_eq (QBox_normalized r) r)
   \<and> (QBox_width r <s 0 \<longrightarrow>
        QBox_left (QBox_normalized r) = QBox_x r + QBox_width r
        \<and> QBox_right (QBox_normalized r) = QBox_left r)
   \<and> (QBox_height r <s 0 \<longrightarrow> QBox_top (QBox_normalized r) = QBox_y r + QBox_height r)"
proof -
  have abs: "sint (if e <s 0 then - e else e) = \<bar>sint e\<bar> \<and> \<not> (if e <s 0 then - e else e) <s 0"
    if "e \<noteq> INT_MIN" for e :: cint
    using that sint32_ge [of e] by (auto simp: word_sless_alt sint32_minus INT_MIN_iff)
  have keep: "QBox_normalized r = r" if "\<not> w r <s 0" "\<not> h r <s 0" for r
    using that by (simp add: QBox_normalized_def Let_def)
  have idem: "QBox_normalized (QBox_normalized r) = QBox_normalized r"
    if "w r \<noteq> INT_MIN" "h r \<noteq> INT_MIN"
    using abs [OF that(1)] abs [OF that(2)]
    by (intro keep) (simp_all only: QBox_normalized_members, simp_all)
  show ?thesis
    using abs [of "w r"] abs [of "h r"] idem keep [of r]
    by (auto simp: QBox_width_def QBox_height_def QBox_left_def QBox_right_def QBox_top_def
        QBox_x_def QBox_y_def QBox_operator_eq_iff QBox_normalized_members word_sle_eq
        word_sless_alt)
qed

text \<open>
  C7, witness: \<^verbatim>\<open>QBox(5, 5, -3, -2)\<close>, normalized to \<^verbatim>\<open>QBox(2, 3, 3, 2)\<close>, and
  \<^verbatim>\<open>QBox(2, 3, 3, 2)\<close>, which is its own normalized form.
\<close>

theorem C7_normalized_witness:
  "QBox_width (QBox_of_ints 5 5 (- 3) (- 2)) \<noteq> INT_MIN
   \<and> QBox_height (QBox_of_ints 5 5 (- 3) (- 2)) \<noteq> INT_MIN
   \<and> QBox_width (QBox_of_ints 5 5 (- 3) (- 2)) <s 0
   \<and> QBox_height (QBox_of_ints 5 5 (- 3) (- 2)) <s 0
   \<and> QBox_normalized (QBox_of_ints 5 5 (- 3) (- 2)) = QBox_of_ints 2 3 3 2
   \<and> sint (QBox_width (QBox_normalized (QBox_of_ints 5 5 (- 3) (- 2)))) = 3
   \<and> QBox_left (QBox_normalized (QBox_of_ints 5 5 (- 3) (- 2))) = 2
   \<and> 0 \<le>s QBox_width (QBox_of_ints 2 3 3 2) \<and> 0 \<le>s QBox_height (QBox_of_ints 2 3 3 2)
   \<and> QBox_operator_eq (QBox_normalized (QBox_of_ints 2 3 3 2)) (QBox_of_ints 2 3 3 2)"
  using C7_normalized [of "QBox_of_ints 5 5 (- 3) (- 2)"] C7_normalized [of "QBox_of_ints 2 3 3 2"]
  by (simp add: QBox_width_def QBox_height_def QBox_of_ints_def INT_MIN_def QBox_normalized_def
      QBox_left_def QBox_operator_eq_def word_sless_alt word_sle_eq)

text \<open>
  C7, as stated, fails for a width of \<^verbatim>\<open>INT_MIN\<close>: \<^verbatim>\<open>-INT_MIN\<close> wraps to \<^verbatim>\<open>INT_MIN\<close>, so the
  normalized form of \<^verbatim>\<open>QBox(0, 0, INT_MIN, 0)\<close> still has a negative width, which is not
  \<^verbatim>\<open>|r.width()|\<close>.
\<close>

theorem C7_counterexample:
  "QBox_normalized (QBox_of_ints 0 0 INT_MIN 0) = QBox_of_ints INT_MIN 0 INT_MIN 0
   \<and> QBox_width (QBox_normalized (QBox_of_ints 0 0 INT_MIN 0)) <s 0
   \<and> sint (QBox_width (QBox_normalized (QBox_of_ints 0 0 INT_MIN 0)))
       \<noteq> \<bar>sint (QBox_width (QBox_of_ints 0 0 INT_MIN 0))\<bar>"
  by (simp add: QBox_of_ints_def INT_MIN_def QBox_normalized_def QBox_width_def word_sless_alt)

subsection \<open>Union\<close>

lemma qMin_commute: "qMin a b = qMin b a"
  by (cases "sint a = sint b"; auto simp: qMin_def word_sless_alt dest: signed_word_eqI)

lemma qMax_commute: "qMax a b = qMax b a"
  by (cases "sint a = sint b"; auto simp: qMax_def word_sless_alt dest: signed_word_eqI)

lemma QBox_operator_or_edges:
  assumes "edges (xp a) (w a) = (l1, r1)" "edges (xp b) (w b) = (l2, r2)"
    and "edges (yp a) (h a) = (t1, b1)" "edges (yp b) (h b) = (t2, b2)"
  shows "QBox_operator_or a b =
    (if QBox_isNull a then b
     else if QBox_isNull b then a
     else \<lparr>xp = qMin l1 l2, yp = qMin t1 t2,
           w = qMax r1 r2 - qMin l1 l2, h = qMax b1 b2 - qMin t1 t2\<rparr>)"
  using assms
  by (auto simp: QBox_operator_or_def edges_def QBox_of_ints_def Let_def split: if_splits)

lemma QBox_operator_or_commute:
  assumes "\<not> (QBox_isNull a \<and> QBox_isNull b) \<or> a = b"
  shows "QBox_operator_or a b = QBox_operator_or b a"
proof -
  obtain l1 r1 where x1: "edges (xp a) (w a) = (l1, r1)" by fastforce
  obtain l2 r2 where x2: "edges (xp b) (w b) = (l2, r2)" by fastforce
  obtain t1 b1 where y1: "edges (yp a) (h a) = (t1, b1)" by fastforce
  obtain t2 b2 where y2: "edges (yp b) (h b) = (t2, b2)" by fastforce
  show ?thesis
    using assms
    unfolding QBox_operator_or_edges [OF x1 x2 y1 y2] QBox_operator_or_edges [OF x2 x1 y2 y1]
    by (auto simp: qMin_commute [of l1 l2] qMax_commute [of r1 r2] qMin_commute [of t1 t2]
        qMax_commute [of b1 b2])
qed

lemma QBox_operator_or_default_left: "QBox_operator_or QBox_default a = a"
  by (simp add: QBox_operator_or_def QBox_default_def QBox_isNull_def)

lemma QBox_operator_or_default_right:
  "\<not> QBox_isNull a \<or> a = QBox_default \<Longrightarrow> QBox_operator_or a QBox_default = a"
  by (auto simp: QBox_operator_or_def QBox_default_def QBox_isNull_def)

lemma edges_union:
  assumes fits: "sint (qMax r1 r2) - sint (qMin l1 l2) \<le> 2147483647"
    and c: "inside v (l1, r1) \<or> inside v (l2, r2)"
  shows "inside v (edges (qMin l1 l2) (qMax r1 r2 - qMin l1 l2))"
proof -
  let ?L = "qMin l1 l2" and ?R = "qMax r1 r2"
  have v: "sint ?L \<le> sint v" "sint v < sint ?R"
    using c by (auto simp: inside_iff sint_qMax sint_qMin)
  then have "sint (?R - ?L) = sint ?R - sint ?L"
    using fits by (simp add: sint32_diff)
  then have "\<not> (?R - ?L) <s 0"
    using v by (simp add: word_sless_alt)
  then have "edges ?L (?R - ?L) = (?L, ?R)"
    by (simp add: edges_nonneg)
  then show ?thesis
    using v by (simp add: inside_iff)
qed

lemma QBox_operator_or_contains:
  assumes ok: "QBox_isNull a \<or> QBox_isNull b
      \<or> (bounding_extent (QBox_x a) (QBox_width a) (QBox_x b) (QBox_width b) \<le> 2147483647
         \<and> bounding_extent (QBox_y a) (QBox_height a) (QBox_y b) (QBox_height b) \<le> 2147483647)"
    and c: "QBox_contains a p \<or> QBox_contains b p"
  shows "QBox_contains (QBox_operator_or a b) p"
proof -
  obtain l1 r1 where x1: "edges (xp a) (w a) = (l1, r1)" by fastforce
  obtain l2 r2 where x2: "edges (xp b) (w b) = (l2, r2)" by fastforce
  obtain t1 b1 where y1: "edges (yp a) (h a) = (t1, b1)" by fastforce
  obtain t2 b2 where y2: "edges (yp b) (h b) = (t2, b2)" by fastforce
  note unfold = QBox_operator_or_edges [OF x1 x2 y1 y2]
  show ?thesis
  proof (cases "QBox_isNull a \<or> QBox_isNull b")
    case True
    then show ?thesis
      using c QBox_isNull_contains [of a p] QBox_isNull_contains [of b p]
      by (auto simp: unfold)
  next
    case False
    then have fits: "sint (qMax r1 r2) - sint (qMin l1 l2) \<le> 2147483647"
      "sint (qMax b1 b2) - sint (qMin t1 t2) \<le> 2147483647"
      using ok
      by (simp_all add: bounding_extent_def QBox_x_def QBox_y_def QBox_width_def
          QBox_height_def x1 x2 y1 y2)
    have "(inside (QPoint_x p) (l1, r1) \<and> inside (QPoint_y p) (t1, b1))
        \<or> (inside (QPoint_x p) (l2, r2) \<and> inside (QPoint_y p) (t2, b2))"
      using c by (simp add: QBox_contains_iff x1 x2 y1 y2)
    then have "inside (QPoint_x p) (edges (qMin l1 l2) (qMax r1 r2 - qMin l1 l2))"
      and "inside (QPoint_y p) (edges (qMin t1 t2) (qMax b1 b2 - qMin t1 t2))"
      using edges_union [OF fits(1), of "QPoint_x p"] edges_union [OF fits(2), of "QPoint_y p"]
      by blast+
    then show ?thesis
      using False by (simp add: unfold QBox_contains_iff)
  qed
qed

text \<open>
  C6 (amended). For all rectangles \<open>a\<close> and \<open>b\<close>: \<^verbatim>\<open>a | b == b | a\<close> unless \<open>a\<close> and \<open>b\<close> are
  two different null rectangles; \<^verbatim>\<open>a | QBox() == a\<close> unless \<open>a\<close> is a null rectangle other than
  \<^verbatim>\<open>QBox()\<close>; \<^verbatim>\<open>QBox() | a == a\<close>; and for every point \<open>p\<close>, if \<^verbatim>\<open>a.contains(p)\<close> or
  \<^verbatim>\<open>b.contains(p)\<close> then \<^verbatim>\<open>(a | b).contains(p)\<close>, provided that \<open>a\<close> or \<open>b\<close> is null or the
  extent of their bounding rectangle fits in an \<^verbatim>\<open>int\<close>: the distance from the smaller left
  edge to the larger right edge of \<open>a\<close> and \<open>b\<close>, and from the smaller top edge to the larger
  bottom edge, is at most \<^verbatim>\<open>INT_MAX\<close>.
\<close>

theorem C6_union:
  "(\<not> (QBox_isNull a \<and> QBox_isNull b) \<or> a = b
      \<longrightarrow> QBox_operator_eq (QBox_operator_or a b) (QBox_operator_or b a))
   \<and> (\<not> QBox_isNull a \<or> a = QBox_default
      \<longrightarrow> QBox_operator_eq (QBox_operator_or a QBox_default) a)
   \<and> QBox_operator_eq (QBox_operator_or QBox_default a) a
   \<and> (QBox_isNull a \<or> QBox_isNull b
       \<or> (bounding_extent (QBox_x a) (QBox_width a) (QBox_x b) (QBox_width b) \<le> 2147483647
          \<and> bounding_extent (QBox_y a) (QBox_height a) (QBox_y b) (QBox_height b) \<le> 2147483647)
      \<longrightarrow> QBox_contains a p \<or> QBox_contains b p
      \<longrightarrow> QBox_contains (QBox_operator_or a b) p)"
  using QBox_operator_or_commute [of a b] QBox_operator_or_default_right [of a]
    QBox_operator_or_default_left [of a] QBox_operator_or_contains [of a b p]
  unfolding QBox_operator_eq_iff by blast

text \<open>
  C6, witness: \<^verbatim>\<open>QBox(0, 0, 2, 2)\<close> and \<^verbatim>\<open>QBox(5, 7, -1, 1)\<close>, neither of them null, whose
  bounding rectangle extends over 5 columns and 8 rows; it is \<^verbatim>\<open>QBox(0, 0, 5, 8)\<close> in both
  orders and contains the point (4, 7) of the second rectangle.
\<close>

theorem C6_union_witness:
  "\<not> QBox_isNull (QBox_of_ints 0 0 2 2) \<and> \<not> QBox_isNull (QBox_of_ints 5 7 (- 1) 1)
   \<and> bounding_extent (QBox_x (QBox_of_ints 0 0 2 2)) (QBox_width (QBox_of_ints 0 0 2 2))
        (QBox_x (QBox_of_ints 5 7 (- 1) 1)) (QBox_width (QBox_of_ints 5 7 (- 1) 1)) = 5
   \<and> bounding_extent (QBox_y (QBox_of_ints 0 0 2 2)) (QBox_height (QBox_of_ints 0 0 2 2))
        (QBox_y (QBox_of_ints 5 7 (- 1) 1)) (QBox_height (QBox_of_ints 5 7 (- 1) 1)) = 8
   \<and> QBox_operator_or (QBox_of_ints 0 0 2 2) (QBox_of_ints 5 7 (- 1) 1) = QBox_of_ints 0 0 5 8
   \<and> QBox_operator_eq (QBox_operator_or (QBox_of_ints 0 0 2 2) (QBox_of_ints 5 7 (- 1) 1))
        (QBox_operator_or (QBox_of_ints 5 7 (- 1) 1) (QBox_of_ints 0 0 2 2))
   \<and> QBox_operator_eq (QBox_operator_or (QBox_of_ints 0 0 2 2) QBox_default) (QBox_of_ints 0 0 2 2)
   \<and> QBox_contains (QBox_of_ints 5 7 (- 1) 1) (QPoint 4 7)
   \<and> QBox_contains (QBox_operator_or (QBox_of_ints 0 0 2 2) (QBox_of_ints 5 7 (- 1) 1)) (QPoint 4 7)"
  using C6_union [of "QBox_of_ints 0 0 2 2" "QBox_of_ints 5 7 (- 1) 1" "QPoint 4 7"]
  by (simp add: QBox_of_ints_def QBox_isNull_def QBox_operator_or_def QBox_operator_eq_def
      QBox_default_def QBox_x_def QBox_y_def QBox_width_def QBox_height_def QBox_contains_def
      bounding_extent_def edges_def qMin_def qMax_def word_sless_alt word_sle_eq)

text \<open>
  C6, as stated, fails in two ways. A null rectangle is returned or dropped as it is:
  \<^verbatim>\<open>QBox(1, 1, 0, 0) | QBox()\<close> is \<^verbatim>\<open>QBox()\<close>, while \<^verbatim>\<open>QBox() | QBox(1, 1, 0, 0)\<close> is
  \<^verbatim>\<open>QBox(1, 1, 0, 0)\<close>. And the extent of the bounding rectangle can overflow:
  \<^verbatim>\<open>QBox(INT_MIN, 0, 1, 1)\<close> contains the point \<^verbatim>\<open>(INT_MIN, 0)\<close>, but its union with
  \<^verbatim>\<open>QBox(2147483646, 0, 1, 1)\<close> extends over 4294967295 columns; the width
  \<^verbatim>\<open>INT_MAX - INT_MIN\<close> wraps to -1, and the union does not contain that point.
\<close>

theorem C6_counterexample:
  "QBox_operator_or (QBox_of_ints 1 1 0 0) QBox_default = QBox_default
   \<and> QBox_operator_or QBox_default (QBox_of_ints 1 1 0 0) = QBox_of_ints 1 1 0 0
   \<and> \<not> QBox_operator_eq (QBox_operator_or (QBox_of_ints 1 1 0 0) QBox_default)
        (QBox_operator_or QBox_default (QBox_of_ints 1 1 0 0))
   \<and> \<not> QBox_operator_eq (QBox_operator_or (QBox_of_ints 1 1 0 0) QBox_default)
        (QBox_of_ints 1 1 0 0)
   \<and> QBox_contains (QBox_of_ints INT_MIN 0 1 1) (QPoint INT_MIN 0)
   \<and> bounding_extent INT_MIN 1 2147483646 1 = 4294967295
   \<and> QBox_operator_or (QBox_of_ints INT_MIN 0 1 1) (QBox_of_ints 2147483646 0 1 1)
       = QBox_of_ints INT_MIN 0 (- 1) 1
   \<and> \<not> QBox_contains
        (QBox_operator_or (QBox_of_ints INT_MIN 0 1 1) (QBox_of_ints 2147483646 0 1 1))
        (QPoint INT_MIN 0)"
  by (simp add: QBox_of_ints_def QBox_isNull_def QBox_operator_or_def QBox_operator_eq_def
      QBox_default_def QBox_contains_def bounding_extent_def edges_def qMin_def qMax_def
      INT_MIN_def word_sless_alt word_sle_eq)

subsection \<open>Conversion to QBoxF and back\<close>

lemma qRound_nearest_int: "qRound_nearest (real_of_int k) = word_of_int k"
proof -
  have "\<lfloor>real_of_int k + 1 / 2\<rfloor> = k" by linarith
  moreover have "\<lceil>real_of_int k - 1 / 2\<rceil> = k" by linarith
  ultimately show ?thesis by (simp add: qRound_nearest_def)
qed

lemma qRound_nearest_sint: "qRound_nearest (real_of_int (sint (v::cint))) = v"
  unfolding qRound_nearest_int by simp

text \<open>
  C8. For every rectangle \<open>r\<close>, \<^verbatim>\<open>r.toBoxF()\<close> has the x, y, width and height of \<open>r\<close>, and
  \<^verbatim>\<open>r.toBoxF().toBox() == r\<close>, for every \<^verbatim>\<open>qRound\<close> that maps the double of an \<^verbatim>\<open>int\<close> to that
  \<^verbatim>\<open>int\<close>: the correction terms \<^verbatim>\<open>(xp - nxp) / 2\<close> and \<^verbatim>\<open>(yp - nyp) / 2\<close> of \<^verbatim>\<open>toBox()\<close> are 0.
\<close>

theorem C8_toBoxF_toBox:
  assumes "\<forall>v::cint. qRound (real_of_int (sint v)) = v"
  shows "QBoxF_x (QBox_toBoxF r) = real_of_int (sint (QBox_x r))
    \<and> QBoxF_y (QBox_toBoxF r) = real_of_int (sint (QBox_y r))
    \<and> QBoxF_width (QBox_toBoxF r) = real_of_int (sint (QBox_width r))
    \<and> QBoxF_height (QBox_toBoxF r) = real_of_int (sint (QBox_height r))
    \<and> QBox_operator_eq (QBoxF_toBox qRound (QBox_toBoxF r)) r"
  using assms
  by (simp add: QBoxF_x_def QBoxF_y_def QBoxF_width_def QBoxF_height_def QBox_toBoxF_def
      QBoxF_of_QBox_def QBoxF_toBox_def QBox_of_ints_def QBox_operator_eq_def QBox_x_def
      QBox_y_def QBox_width_def QBox_height_def Let_def)

text \<open>
  C8, witness: Qt's rounding \<open>qRound_nearest\<close> and the rectangle \<^verbatim>\<open>QBox(-3, 2, 5, -7)\<close>.
\<close>

theorem C8_toBoxF_toBox_witness:
  "(\<forall>v::cint. qRound_nearest (real_of_int (sint v)) = v)
   \<and> QBoxF_x (QBox_toBoxF (QBox_of_ints (- 3) 2 5 (- 7))) = - 3
   \<and> QBoxF_height (QBox_toBoxF (QBox_of_ints (- 3) 2 5 (- 7))) = - 7
   \<and> QBoxF_toBox qRound_nearest (QBox_toBoxF (QBox_of_ints (- 3) 2 5 (- 7)))
       = QBox_of_ints (- 3) 2 5 (- 7)"
proof -
  have h: "\<forall>v::cint. qRound_nearest (real_of_int (sint v)) = v"
    using qRound_nearest_sint by blast
  show ?thesis
    using h C8_toBoxF_toBox [OF h, of "QBox_of_ints (- 3) 2 5 (- 7)"]
    by (simp add: QBox_operator_eq_iff QBox_x_def QBox_height_def QBox_of_ints_def)
qed

end
